theory Spec2Isabelle
  imports Main "HOL-Library.Word"
begin

unbundle bit_operations_syntax

section \<open>The glue: \<^verbatim>\<open>lambda-function/s3qlite.py\<close>\<close>

subsection \<open>Python values, exceptions and name lookup\<close>

text \<open>
  A Lambda event is a decoded JSON object. A float is its IEEE 754 binary64 bit pattern:
  the handler passes floats through and never computes with one. \<open>PObject\<close> stands for
  a module, class, function or client object bound at module level.
\<close>

type_synonym pyfloat = "64 word"

datatype pyval =
    PNone
  | PBool bool
  | PInt int
  | PFloat pyfloat
  | PStr string
  | PList "pyval list"
  | PDict "(string \<times> pyval) list"
  | PObject string

type_synonym pydict = "(string \<times> pyval) list"

datatype py_error =
    KeyError
  | NameError
  | TypeError
  | IndexError
  | ClientError
  | SQLError
  | ArrowError

text \<open>\<^verbatim>\<open>m >>= f\<close> on results: an exception raised by \<open>m\<close> propagates.\<close>

definition bind_err :: "py_error + 'a \<Rightarrow> ('a \<Rightarrow> py_error + 'b) \<Rightarrow> py_error + 'b" where
  "bind_err m f = (case m of Inl e \<Rightarrow> Inl e | Inr x \<Rightarrow> f x)"

text \<open>\<^verbatim>\<open>d[k]\<close> on a dict raises KeyError when the key is missing.\<close>

definition dict_item :: "pydict \<Rightarrow> string \<Rightarrow> py_error + pyval" where
  "dict_item d k = (case map_of d k of None \<Rightarrow> Inl KeyError | Some v \<Rightarrow> Inr v)"

text \<open>\<^verbatim>\<open>d.get(k)\<close> returns None when the key is missing.\<close>

definition dict_get :: "pydict \<Rightarrow> string \<Rightarrow> pyval" where
  "dict_get d k = (case map_of d k of None \<Rightarrow> PNone | Some v \<Rightarrow> v)"

text \<open>
  \<^verbatim>\<open>v[k]\<close> with a string subscript on an arbitrary value: a dict is looked up, every
  other value raises TypeError (strings and lists take integer indices only, the rest is
  not subscriptable).
\<close>

fun py_getitem :: "pyval \<Rightarrow> string \<Rightarrow> py_error + pyval" where
  "py_getitem (PDict d) k = dict_item d k"
| "py_getitem v k = Inl TypeError"

text \<open>
  \<^verbatim>\<open>str(v)\<close>, as \<^verbatim>\<open>str.format\<close> applies it to a \<^verbatim>\<open>{}\<close> field. The text of numbers
  and containers is left to the parameter \<open>other\<close>.
\<close>

definition py_str :: "(pyval \<Rightarrow> string) \<Rightarrow> pyval \<Rightarrow> string" where
  "py_str other v =
     (case v of
        PStr s \<Rightarrow> s
      | PNone \<Rightarrow> ''None''
      | PBool b \<Rightarrow> (if b then ''True'' else ''False'')
      | _ \<Rightarrow> other v)"

text \<open>
  \<^verbatim>\<open>fmt.format(*args)\<close> for a format string whose only fields are \<^verbatim>\<open>{}\<close>: each field
  takes the next argument; IndexError when the arguments run out.
\<close>

fun py_format :: "string \<Rightarrow> string list \<Rightarrow> py_error + string" where
  "py_format [] args = Inr []"
| "py_format (c # fs) args =
     (if c = CHR ''{'' \<and> take 1 fs = ''}'' then
        (case args of
           [] \<Rightarrow> Inl IndexError
         | a # rest \<Rightarrow> bind_err (py_format (drop 1 fs) rest) (\<lambda>r. Inr (a @ r)))
      else bind_err (py_format fs args) (\<lambda>r. Inr (c # r)))"

text \<open>\<^verbatim>\<open>s.rstrip('/')\<close>: all trailing occurrences of the character are dropped.\<close>

definition rstrip :: "char \<Rightarrow> string \<Rightarrow> string" where
  "rstrip c s = rev (dropWhile (\<lambda>x. x = c) (rev s))"

text \<open>
  \<^verbatim>\<open>s.replace(old, new)\<close>: the non-overlapping occurrences of \<open>old\<close>, found from the
  left, are replaced; an empty \<open>old\<close> matches before every character and at the end.
\<close>

function py_replace :: "string \<Rightarrow> string \<Rightarrow> string \<Rightarrow> string" where
  "py_replace old new [] = (if old = [] then new else [])"
| "py_replace old new (c # cs) =
     (if old = [] then new @ c # py_replace old new cs
      else if take (length old) (c # cs) = old
        then new @ py_replace old new (drop (length old) (c # cs))
      else c # py_replace old new cs)"
  by pat_completeness auto
termination
  by (relation "measure (\<lambda>(old, new, s). length s)") auto

subsection \<open>Module level\<close>

text \<open>
  The process environment and the libraries the module imports. \<open>str_other\<close> is
  Python's \<^verbatim>\<open>str\<close> on numbers and containers, \<open>vfsname\<close> the attribute of the
  \<^verbatim>\<open>S3VFS\<close> object.
\<close>

datatype arrow_type = Int64 | String

type_synonym arrow_schema = "(string \<times> arrow_type) list"

datatype sqlval =
    SNull
  | SInt int
  | SReal pyfloat
  | SText string
  | SBlob "8 word list"

text \<open>A record batch: the schema it was built under, if any, and its columns.\<close>

datatype record_batch = RecordBatch "arrow_schema option" "sqlval list list"

record env =
  TARGET_BUCKET :: string
  TARGET_PREFIX :: string
  str_other :: "pyval \<Rightarrow> string"
  vfsname :: string
  schema_b64 :: "arrow_schema \<Rightarrow> string"
  from_arrays_ok :: "arrow_schema option \<Rightarrow> sqlval list list \<Rightarrow> bool"
  batch_b64 :: "record_batch \<Rightarrow> string"

definition S3_BUCKET :: "env \<Rightarrow> string" where
  "S3_BUCKET E = TARGET_BUCKET E"

definition S3_PREFIX :: "env \<Rightarrow> string" where
  "S3_PREFIX E = rstrip CHR ''/'' (TARGET_PREFIX E)"

definition CAPABILITIES :: int where
  "CAPABILITIES = 23"

text \<open>Flags of \<^verbatim>\<open>sqlite3_open_v2\<close>, as \<^verbatim>\<open>apsw\<close> exports them.\<close>

definition SQLITE_OPEN_READONLY :: int where
  "SQLITE_OPEN_READONLY = 1"

definition SQLITE_OPEN_READWRITE :: int where
  "SQLITE_OPEN_READWRITE = 2"

definition SQLITE_OPEN_CREATE :: int where
  "SQLITE_OPEN_CREATE = 4"

definition SQLITE_OPEN_URI :: int where
  "SQLITE_OPEN_URI = 64"

text \<open>
  The names bound in the module's global scope once it is imported, in source order,
  and the builtins the module uses. A name that is not assigned in a function body is
  looked up here at run time; NameError when it is in neither.
\<close>

definition module_globals :: "env \<Rightarrow> pydict" where
  "module_globals E =
     [(''pa'', PObject ''pyarrow''),
      (''apsw'', PObject ''apsw''),
      (''boto3'', PObject ''boto3''),
      (''S3VFS'', PObject ''vfs.S3VFS''),
      (''S3VFSFile'', PObject ''vfs.S3VFSFile''),
      (''os'', PObject ''os''),
      (''uuid4'', PObject ''uuid.uuid4''),
      (''base64'', PObject ''base64''),
      (''S3_BUCKET'', PStr (S3_BUCKET E)),
      (''S3_PREFIX'', PStr (S3_PREFIX E)),
      (''S3_CLIENT'', PObject ''boto3.client(s3)''),
      (''S3FS'', PObject ''S3VFS()''),
      (''CAPABILITIES'', PInt CAPABILITIES),
      (''ListSchemasRequest'', PObject ''ListSchemasRequest''),
      (''ListTablesRequest'', PObject ''ListTablesRequest''),
      (''lambda_handler'', PObject ''lambda_handler'')]"

definition py_builtins :: pydict where
  "py_builtins = [(''print'', PObject ''print''), (''str'', PObject ''str'')]"

definition load_global :: "env \<Rightarrow> string \<Rightarrow> py_error + pyval" where
  "load_global E name =
     (case map_of (module_globals E @ py_builtins) name of
        None \<Rightarrow> Inl NameError
      | Some v \<Rightarrow> Inr v)"

subsection \<open>The outside world: S3 listings, the database engine, random identifiers\<close>

record s3_object =
  Key :: string

record list_params =
  Bucket :: string
  Prefix :: string
  Delimiter :: string
  ContinuationToken :: "string option"

record list_response =
  Contents :: "s3_object list option"
  NextContinuationToken :: "string option"

text \<open>An open connection answers a statement with its rows, or raises.\<close>

type_synonym connection = "string \<Rightarrow> py_error + sqlval list list"

text \<open>
  \<open>s3_replies\<close> are the answers of \<^verbatim>\<open>list_objects_v2\<close> to the successive calls,
  \<open>connect uri flags vfs\<close> is \<^verbatim>\<open>apsw.Connection\<close>, \<open>uuid4 k\<close> the text of the
  \<open>k\<close>-th identifier drawn in one invocation.
\<close>

record world =
  s3_replies :: "(py_error + list_response) list"
  connect :: "string \<Rightarrow> int \<Rightarrow> string \<Rightarrow> py_error + connection"
  uuid4 :: "nat \<Rightarrow> string"

text \<open>What an invocation does to the outside, in order.\<close>

datatype effect =
    S3ListObjectsV2 list_params
  | DbConnect string int string
  | DbExecute string

text \<open>
  The outcome of a call and its effects. The outcome is \<open>None\<close> when the listing loop
  asks for more replies than \<open>s3_replies\<close> holds.
\<close>

type_synonym 'a run = "(py_error + 'a) option \<times> effect list"

subsection \<open>\<^verbatim>\<open>ListSchemasRequest\<close>\<close>

definition sqlite_basename :: "env \<Rightarrow> string \<Rightarrow> string" where
  "sqlite_basename E key =
     py_replace ''.sqlite'' [] (py_replace (S3_PREFIX E @ ''/'') [] key)"

definition response_contents :: "list_response \<Rightarrow> s3_object list" where
  "response_contents response = (case Contents response of None \<Rightarrow> [] | Some cs \<Rightarrow> cs)"

text \<open>The \<^verbatim>\<open>while True\<close> loop of \<^verbatim>\<open>_list_sqlite_objects\<close>, one reply per iteration.\<close>

fun list_loop ::
  "env \<Rightarrow> list_params \<Rightarrow> (py_error + list_response) list \<Rightarrow> string list \<Rightarrow> (string list) run"
where
  "list_loop E params [] sqlite_filenames = (None, [S3ListObjectsV2 params])"
| "list_loop E params (reply # replies) sqlite_filenames =
     (case reply of
        Inl e \<Rightarrow> (Some (Inl e), [S3ListObjectsV2 params])
      | Inr response \<Rightarrow>
          (let names = sqlite_filenames
                 @ map (\<lambda>data. sqlite_basename E (Key data)) (response_contents response)
           in case NextContinuationToken response of
                Some token \<Rightarrow>
                  (case list_loop E (params\<lparr>ContinuationToken := Some token\<rparr>) replies names of
                     (r, log) \<Rightarrow> (r, S3ListObjectsV2 params # log))
              | None \<Rightarrow> (Some (Inr names), [S3ListObjectsV2 params])))"

definition list_sqlite_objects :: "env \<Rightarrow> world \<Rightarrow> (string list) run" where
  "list_sqlite_objects E W =
     list_loop E
       \<lparr>Bucket = S3_BUCKET E, Prefix = S3_PREFIX E @ ''/'', Delimiter = ''/'',
        ContinuationToken = None\<rparr>
       (s3_replies W) []"

definition ListSchemasRequest_execute :: "env \<Rightarrow> world \<Rightarrow> pydict \<Rightarrow> pyval run" where
  "ListSchemasRequest_execute E W event =
     (case dict_item event ''catalogName'' of
        Inl e \<Rightarrow> (Some (Inl e), [])
      | Inr catalogName \<Rightarrow>
          (case list_sqlite_objects E W of
             (None, log) \<Rightarrow> (None, log)
           | (Some (Inl e), log) \<Rightarrow> (Some (Inl e), log)
           | (Some (Inr names), log) \<Rightarrow>
               (Some (Inr (PDict
                  [(''@type'', PStr ''ListSchemasResponse''),
                   (''catalogName'', catalogName),
                   (''schemas'', PList (map PStr names)),
                   (''requestType'', PStr ''LIST_SCHEMAS'')])), log)))"

subsection \<open>\<^verbatim>\<open>ListTablesRequest\<close>\<close>

text \<open>Lines 53 and 54: the connection URI of the schema the event names.\<close>

definition list_tables_vfs_path :: "env \<Rightarrow> pydict \<Rightarrow> py_error + string" where
  "list_tables_vfs_path E event =
     (let sqlite_dbname = dict_get event ''schemaName''
      in py_format ''file:/{}/{}.sqlite?bucket={}''
           [S3_PREFIX E, py_str (str_other E) sqlite_dbname, S3_BUCKET E])"

text \<open>
  \<^verbatim>\<open>execute\<close> assigns \<^verbatim>\<open>sqlite_dbname\<close> and \<^verbatim>\<open>sqlite_vfs_path\<close> only; \<^verbatim>\<open>tables\<close>
  in the response is a global lookup. The entries of the dict display are evaluated in
  order.
\<close>

definition ListTablesRequest_execute :: "env \<Rightarrow> pydict \<Rightarrow> py_error + pyval" where
  "ListTablesRequest_execute E event =
     bind_err (list_tables_vfs_path E event) (\<lambda>sqlite_vfs_path.
     bind_err (dict_item event ''catalogName'') (\<lambda>catalogName.
     bind_err (load_global E ''tables'') (\<lambda>tables.
       Inr (PDict
         [(''@type'', PStr ''ListTablesResponse''),
          (''catalogName'', catalogName),
          (''tables'', tables),
          (''requestType'', PStr ''LIST_TABLES'')]))))"

definition row_item :: "sqlval list \<Rightarrow> nat \<Rightarrow> py_error + sqlval" where
  "row_item row i = (if i < length row then Inr (row ! i) else Inl IndexError)"

definition sql_to_py :: "sqlval \<Rightarrow> pyval" where
  "sql_to_py v =
     (case v of
        SNull \<Rightarrow> PNone
      | SInt i \<Rightarrow> PInt i
      | SReal x \<Rightarrow> PFloat x
      | SText s \<Rightarrow> PStr s
      | SBlob b \<Rightarrow> PObject ''bytes'')"

definition table_list_query :: string where
  "table_list_query = ''SELECT name FROM sqlite_master WHERE type='' @ [CHR 0x27] @ ''table''
     @ [CHR 0x27] @ '' ORDER BY name;''"

text \<open>
  The loop body of \<^verbatim>\<open>_fetch_table_list\<close>: \<^verbatim>\<open>row[0]\<close> is printed, then the entry is
  built with the global lookup of \<^verbatim>\<open>sqlite_dbname\<close>. The method has no
  \<^verbatim>\<open>return\<close>: it yields None.
\<close>

fun fetch_table_rows :: "env \<Rightarrow> sqlval list list \<Rightarrow> pyval list \<Rightarrow> py_error + pyval" where
  "fetch_table_rows E [] tables = Inr PNone"
| "fetch_table_rows E (row # rows) tables =
     (case row_item row 0 of
        Inl e \<Rightarrow> Inl e
      | Inr name \<Rightarrow>
          (case load_global E ''sqlite_dbname'' of
             Inl e \<Rightarrow> Inl e
           | Inr sqlite_dbname \<Rightarrow>
               fetch_table_rows E rows
                 (tables @ [PDict [(''schemaName'', sqlite_dbname),
                                   (''tableName'', sql_to_py name)]])))"

definition fetch_table_list :: "env \<Rightarrow> world \<Rightarrow> string \<Rightarrow> pyval run" where
  "fetch_table_list E W sqlite_path =
     (let flags = SQLITE_OPEN_READONLY OR SQLITE_OPEN_URI;
          opened = DbConnect sqlite_path flags (vfsname E)
      in case connect W sqlite_path flags (vfsname E) of
           Inl e \<Rightarrow> (Some (Inl e), [opened])
         | Inr s3db \<Rightarrow>
             (case s3db table_list_query of
                Inl e \<Rightarrow> (Some (Inl e), [opened, DbExecute table_list_query])
              | Inr rows \<Rightarrow>
                  (Some (fetch_table_rows E rows []), [opened, DbExecute table_list_query])))"

subsection \<open>\<^verbatim>\<open>lambda_handler\<close>\<close>

text \<open>\<^verbatim>\<open>event['tableName'][k]\<close>\<close>

definition table_name_item :: "pydict \<Rightarrow> string \<Rightarrow> py_error + pyval" where
  "table_name_item event k = bind_err (dict_item event ''tableName'') (\<lambda>t. py_getitem t k)"

definition faux_schema :: arrow_schema where
  "faux_schema = [(''year'', Int64), (''month'', Int64), (''day'', Int64), (''someval'', String)]"

text \<open>
  The GetTableRequest branch. The response is built twice, once for \<^verbatim>\<open>print\<close> and once
  for \<^verbatim>\<open>return\<close>.
\<close>

definition get_table_response :: "env \<Rightarrow> pydict \<Rightarrow> pyval \<Rightarrow> pyval \<Rightarrow> py_error + pyval" where
  "get_table_response E event databaseName tableName =
     bind_err (dict_item event ''catalogName'') (\<lambda>catalogName.
       Inr (PDict
         [(''@type'', PStr ''GetTableResponse''),
          (''catalogName'', catalogName),
          (''tableName'', PDict [(''schemaName'', databaseName), (''tableName'', tableName)]),
          (''schema'', PDict [(''schema'', PStr (schema_b64 E faux_schema))]),
          (''partitionColumns'', PList []),
          (''requestType'', PStr ''GET_TABLE'')]))"

definition get_table :: "env \<Rightarrow> pydict \<Rightarrow> py_error + pyval" where
  "get_table E event =
     bind_err (table_name_item event ''schemaName'') (\<lambda>databaseName.
     bind_err (table_name_item event ''tableName'') (\<lambda>tableName.
     bind_err (get_table_response E event databaseName tableName) (\<lambda>printed.
       get_table_response E event databaseName tableName)))"

definition ping :: "pydict \<Rightarrow> py_error + pyval" where
  "ping event =
     bind_err (dict_item event ''catalogName'') (\<lambda>catalogName.
     bind_err (dict_item event ''queryId'') (\<lambda>queryId.
       Inr (PDict
         [(''@type'', PStr ''PingResponse''),
          (''catalogName'', catalogName),
          (''queryId'', queryId),
          (''sourceType'', PStr ''sqlite''),
          (''capabilities'', PInt CAPABILITIES)])))"

definition cloudwatch_schema :: string where
  "cloudwatch_schema = ''nAAAABAAAAAAAAoADgAGAA0ACAAKAAAAAAADABAAAAAAAQoADAAAAAgABAAKAAAACAAAAAgAAAAAAAAAAQAAABgAAAAAABIAGAAUABMAEgAMAAAACAAEABIAAAAUAAAAFAAAABwAAAAAAAIBIAAAAAAAAAAAAAAACAAMAAgABwAIAAAAAAAAASAAAAALAAAAcGFydGl0aW9uSWQAAAAAAA==''"

definition cloudwatch_records :: string where
  "cloudwatch_records = ''jAAAABQAAAAAAAAADAAWAA4AFQAQAAQADAAAABAAAAAAAAAAAAADABAAAAAAAwoAGAAMAAgABAAKAAAAFAAAADgAAAABAAAAAAAAAAAAAAACAAAAAAAAAAAAAAABAAAAAAAAAAgAAAAAAAAABAAAAAAAAAAAAAAAAQAAAAEAAAAAAAAAAAAAAAAAAAAAAAAAAQAAAAAAAAABAAAAAAAAAA==''"

text \<open>
  The GetTableLayoutRequest branch. \<^verbatim>\<open>block\<close> is computed (its record batch is built
  from no arrays and under no schema, which the library may refuse) and then unused; the
  response carries \<^verbatim>\<open>cloudwatch\<close>, whose identifier is the second one drawn.
\<close>

definition get_table_layout :: "env \<Rightarrow> world \<Rightarrow> pydict \<Rightarrow> py_error + pyval" where
  "get_table_layout E W event =
     bind_err (table_name_item event ''schemaName'') (\<lambda>databaseName.
     bind_err (table_name_item event ''tableName'') (\<lambda>tableName.
     bind_err (if from_arrays_ok E None [] then
                 Inr (PDict
                   [(''aId'', PStr (uuid4 W 0)),
                    (''schema'', PStr (schema_b64 E [])),
                    (''records'', PStr (batch_b64 E (RecordBatch None [])))])
               else Inl ArrowError) (\<lambda>block.
     (let cloudwatch = PDict
            [(''aId'', PStr (uuid4 W 1)),
             (''schema'', PStr cloudwatch_schema),
             (''records'', PStr cloudwatch_records)]
      in bind_err (dict_item event ''catalogName'') (\<lambda>catalogName.
           Inr (PDict
             [(''@type'', PStr ''GetTableLayoutResponse''),
              (''catalogName'', catalogName),
              (''tableName'', PDict [(''schemaName'', databaseName), (''tableName'', tableName)]),
              (''partitions'', cloudwatch),
              (''requestType'', PStr ''GET_TABLE_LAYOUT'')]))))))"

definition get_splits :: "env \<Rightarrow> pydict \<Rightarrow> py_error + pyval" where
  "get_splits E event =
     bind_err (dict_item event ''catalogName'') (\<lambda>catalogName.
       Inr (PDict
         [(''@type'', PStr ''GetSplitsResponse''),
          (''catalogName'', catalogName),
          (''splits'', PList
             [PDict
                [(''spillLocation'', PDict
                    [(''@type'', PStr ''S3SpillLocation''),
                     (''bucket'', PStr (S3_BUCKET E)),
                     (''key'', PStr ''athena-spill/7b2b96c9-1be5-4810-ac2a-163f754e132c/1a50edb8-c4c7-41d7-8a0d-1ce8e510755f''),
                     (''directory'', PBool True)]),
                 (''properties'', PDict [])]]),
          (''continuationToken'', PNone),
          (''requestType'', PStr ''GET_SPLITS'')]))"

text \<open>Line 181: the connection URI of the ReadRecordsRequest branch.\<close>

definition read_records_vfs_path :: "env \<Rightarrow> py_error + string" where
  "read_records_vfs_path E =
     py_format ''file:/{}/sample_data.sqlite?bucket={}'' [S3_PREFIX E, S3_BUCKET E]"

definition read_records_query :: string where
  "read_records_query = ''SELECT * FROM records''"

text \<open>
  The four columns \<^verbatim>\<open>records['year']\<close>, \<^verbatim>\<open>records['month']\<close>, \<^verbatim>\<open>records['day']\<close> and
  \<^verbatim>\<open>records['someval']\<close>, and the loop that appends \<^verbatim>\<open>row[0]\<close> to \<^verbatim>\<open>row[3]\<close> to them.
\<close>

type_synonym columns = "sqlval list \<times> sqlval list \<times> sqlval list \<times> sqlval list"

definition append_row :: "columns \<Rightarrow> sqlval list \<Rightarrow> py_error + columns" where
  "append_row records row =
     (case records of (year, month, day, someval) \<Rightarrow>
        bind_err (row_item row 0) (\<lambda>y.
        bind_err (row_item row 1) (\<lambda>m.
        bind_err (row_item row 2) (\<lambda>d.
        bind_err (row_item row 3) (\<lambda>v.
          Inr (year @ [y], month @ [m], day @ [d], someval @ [v]))))))"

fun collect_rows :: "columns \<Rightarrow> sqlval list list \<Rightarrow> py_error + columns" where
  "collect_rows records [] = Inr records"
| "collect_rows records (row # rows) =
     (case append_row records row of
        Inl e \<Rightarrow> Inl e
      | Inr records' \<Rightarrow> collect_rows records' rows)"

text \<open>
  What follows the loop: the batch is built from the four columns under the schema
  (\<open>from_arrays_ok\<close> says whether \<^verbatim>\<open>pa.array\<close> and \<^verbatim>\<open>from_arrays\<close> accept them), then
  the response.
\<close>

definition read_records_response :: "env \<Rightarrow> world \<Rightarrow> pydict \<Rightarrow> columns \<Rightarrow> py_error + pyval" where
  "read_records_response E W event records =
     (case records of (year, month, day, someval) \<Rightarrow>
        (let schema = faux_schema;
             arrays = [year, month, day, someval]
         in bind_err (if from_arrays_ok E (Some schema) arrays
                      then Inr (RecordBatch (Some schema) arrays) else Inl ArrowError) (\<lambda>batch.
            bind_err (dict_item event ''catalogName'') (\<lambda>catalogName.
              Inr (PDict
                [(''@type'', PStr ''ReadRecordsResponse''),
                 (''catalogName'', catalogName),
                 (''records'', PDict
                    [(''aId'', PStr (uuid4 W 0)),
                     (''schema'', PStr (schema_b64 E schema)),
                     (''records'', PStr (batch_b64 E batch))]),
                 (''requestType'', PStr ''READ_RECORDS'')])))))"

definition read_records :: "env \<Rightarrow> world \<Rightarrow> pydict \<Rightarrow> pyval run" where
  "read_records E W event =
     (case read_records_vfs_path E of
        Inl e \<Rightarrow> (Some (Inl e), [])
      | Inr uri \<Rightarrow>
          (let flags = SQLITE_OPEN_READONLY OR SQLITE_OPEN_URI;
               opened = DbConnect uri flags (vfsname E)
           in case connect W uri flags (vfsname E) of
                Inl e \<Rightarrow> (Some (Inl e), [opened])
              | Inr s3db \<Rightarrow>
                  (case s3db read_records_query of
                     Inl e \<Rightarrow> (Some (Inl e), [opened, DbExecute read_records_query])
                   | Inr rows \<Rightarrow>
                       (Some (bind_err (collect_rows ([], [], [], []) rows)
                                (read_records_response E W event)),
                        [opened, DbExecute read_records_query]))))"

text \<open>The dispatcher. \<^verbatim>\<open>context\<close> is not used. Falling off the chain returns None.\<close>

definition lambda_handler :: "env \<Rightarrow> world \<Rightarrow> pydict \<Rightarrow> 'c \<Rightarrow> pyval run" where
  "lambda_handler E W event context =
     (case dict_item event ''@type'' of
        Inl e \<Rightarrow> (Some (Inl e), [])
      | Inr request_type \<Rightarrow>
          if request_type = PStr ''ListSchemasRequest'' then ListSchemasRequest_execute E W event
          else if request_type = PStr ''ListTablesRequest''
            then (Some (ListTablesRequest_execute E event), [])
          else if request_type = PStr ''GetTableRequest'' then (Some (get_table E event), [])
          else if request_type = PStr ''PingRequest'' then (Some (ping event), [])
          else if request_type = PStr ''GetTableLayoutRequest''
            then (Some (get_table_layout E W event), [])
          else if request_type = PStr ''GetSplitsRequest'' then (Some (get_splits E event), [])
          else if request_type = PStr ''ReadRecordsRequest'' then read_records E W event
          else (Some (Inr PNone), []))"

section \<open>The storage core behind \<^verbatim>\<open>from vfs import S3VFS, S3VFSFile\<close>\<close>

text \<open>
  The module \<^verbatim>\<open>vfs\<close> is imported by the glue and is not among the sources. Its
  components are modelled from the specification, sections 3, 4 and 7.
\<close>

type_synonym byte = "8 word"

text \<open>Modelled from the spec: the error taxonomy of section 7 (module \<^verbatim>\<open>vfs\<close> is missing);
  \<open>IOFailure\<close> is the generic I/O failure of section 4.1.\<close>

datatype vfs_error =
    NotFound
  | RangeUnsatisfiable
  | Transient
  | ShortRead
  | Unsupported
  | InvalidArgument
  | IOFailure

text \<open>Modelled from the spec: the Object Reference of section 3, store identifier and
  object key.\<close>

record object_ref =
  ref_bucket :: string
  ref_key :: string

text \<open>Modelled from the spec: the object store of the glossary, key-addressed and
  immutable: an operation takes it and never returns another one.\<close>

type_synonym object_store = "object_ref \<Rightarrow> byte list option"

text \<open>Modelled from the spec: the configuration constants of sections 3, 4.1, 4.2 and 4.4:
  block size, cache capacity in bytes, the fixed maximum attempt count of the retry (how
  many retry attempts may follow the first request), and the deterministic URI parser of
  section 6, whose format the spec leaves open.\<close>

record config =
  block_size :: nat
  capacity :: nat
  max_attempts :: nat
  parse_uri :: "string \<Rightarrow> object_ref option"

text \<open>Modelled from the spec: the network under the Range Fetcher. \<open>faults\<close> says for each
  coming request whether it fails transiently (no entry: it does not), \<open>attempts\<close>
  counts the requests issued.\<close>

record network =
  faults :: "bool list"
  attempts :: nat

text \<open>Modelled from the spec: one underlying request, which either fails with Transient or
  gives the store's answer \<open>answer\<close>.\<close>

definition attempt :: "network \<Rightarrow> vfs_error + 'a \<Rightarrow> (vfs_error + 'a) \<times> network" where
  "attempt N answer =
     (case faults N of
        [] \<Rightarrow> (answer, N\<lparr>attempts := attempts N + 1\<rparr>)
      | failing # fs \<Rightarrow>
          (if failing then Inl Transient else answer,
           N\<lparr>faults := fs, attempts := attempts N + 1\<rparr>))"

text \<open>Modelled from the spec: the retry of section 4.1 with \<open>n\<close> requests left. Only
  Transient is retried; when no request is left, Transient is surfaced. The backoff
  delays are not modelled.\<close>

fun with_retry :: "nat \<Rightarrow> network \<Rightarrow> vfs_error + 'a \<Rightarrow> (vfs_error + 'a) \<times> network" where
  "with_retry 0 N answer = (Inl Transient, N)"
| "with_retry (Suc n) N answer =
     (case attempt N answer of
        (Inl Transient, N') \<Rightarrow> with_retry n N' answer
      | (r, N') \<Rightarrow> (r, N'))"

text \<open>Modelled from the spec: what the store answers to a range GET (section 4.1): NotFound
  for an absent object, RangeUnsatisfiable for an offset at or beyond the object size,
  else the bytes from \<open>offset\<close>, \<open>len\<close> of them or fewer at the end of the object
  (section 3: a read crossing the boundary from below is truncated).\<close>

definition range_get :: "object_store \<Rightarrow> object_ref \<Rightarrow> nat \<Rightarrow> nat \<Rightarrow> vfs_error + byte list" where
  "range_get S ref offset len =
     (case S ref of
        None \<Rightarrow> Inl NotFound
      | Some bytes \<Rightarrow>
          if length bytes \<le> offset then Inl RangeUnsatisfiable
          else Inr (take len (drop offset bytes)))"

text \<open>Modelled from the spec: \<^verbatim>\<open>fetch(object_ref, offset, length)\<close> of the Range Fetcher
  (section 4.1): the first request and, while it fails transiently, the retry attempts,
  at most \<open>max_attempts\<close> of them. With the count of 3 that section 4.1 gives, this is
  the scenario of section 8: three transient failures, then the success of the fourth
  request.\<close>

definition fetch ::
  "config \<Rightarrow> object_store \<Rightarrow> network \<Rightarrow> object_ref \<Rightarrow> nat \<Rightarrow> nat
     \<Rightarrow> (vfs_error + byte list) \<times> network"
where
  "fetch cfg S N ref offset len =
     with_retry (Suc (max_attempts cfg)) N (range_get S ref offset len)"

text \<open>Modelled from the spec: \<^verbatim>\<open>probe_size(object_ref)\<close> of the Range Fetcher
  (section 4.1): the total byte length, NotFound for an absent object, retried as a fetch
  is.\<close>

definition probe_size ::
  "config \<Rightarrow> object_store \<Rightarrow> network \<Rightarrow> object_ref \<Rightarrow> (vfs_error + nat) \<times> network"
where
  "probe_size cfg S N ref =
     with_retry (Suc (max_attempts cfg)) N
       (case S ref of None \<Rightarrow> Inl NotFound | Some bytes \<Rightarrow> Inr (length bytes))"

text \<open>Modelled from the spec: the Cache Entries of section 3, (Object Reference, Block
  Index) to Block bytes, most recently used first.\<close>

type_synonym cache = "((object_ref \<times> nat) \<times> byte list) list"

text \<open>Modelled from the spec: the resident bytes of a cache (section 3).\<close>

definition resident :: "cache \<Rightarrow> nat" where
  "resident c = sum_list (map (\<lambda>e. length (snd e)) c)"

text \<open>Modelled from the spec: a hit makes the entry the most recently used (section 4.2,
  least-recently-used eviction).\<close>

definition touch :: "cache \<Rightarrow> object_ref \<times> nat \<Rightarrow> cache" where
  "touch c k =
     (case map_of c k of
        None \<Rightarrow> c
      | Some blk \<Rightarrow> (k, blk) # filter (\<lambda>e. fst e \<noteq> k) c)"

text \<open>Modelled from the spec: least-recently-used eviction (section 4.2) down to \<open>room\<close>
  resident bytes: the entries are dropped from the least recently used end, which leaves
  the longest most-recently-used prefix that fits.\<close>

fun evict_to :: "nat \<Rightarrow> cache \<Rightarrow> cache" where
  "evict_to room [] = []"
| "evict_to room (e # es) =
     (if length (snd e) \<le> room then e # evict_to (room - length (snd e)) es else [])"

text \<open>Modelled from the spec: inserting a fetched block (section 4.2), evicting only as far
  as the capacity demands; a block larger than the whole capacity is not kept (section
  3: resident bytes never exceed the capacity).\<close>

definition insert_block :: "config \<Rightarrow> cache \<Rightarrow> object_ref \<times> nat \<Rightarrow> byte list \<Rightarrow> cache" where
  "insert_block cfg c k blk =
     (if length blk \<le> capacity cfg
      then (k, blk) # evict_to (capacity cfg - length blk) c
      else c)"

text \<open>Modelled from the spec: one block through the cache (section 4.2): a hit is served
  from the cache, a miss fetches the whole block and inserts it. The read keeps the bytes
  it got, whatever is evicted later.\<close>

definition get_block ::
  "config \<Rightarrow> object_store \<Rightarrow> object_ref \<Rightarrow> nat \<Rightarrow> cache \<Rightarrow> network
     \<Rightarrow> (vfs_error + byte list) \<times> cache \<times> network"
where
  "get_block cfg S ref i c N =
     (case map_of c (ref, i) of
        Some blk \<Rightarrow> (Inr blk, touch c (ref, i), N)
      | None \<Rightarrow>
          (case fetch cfg S N ref (i * block_size cfg) (block_size cfg) of
             (Inl e, N') \<Rightarrow> (Inl e, c, N')
           | (Inr blk, N') \<Rightarrow> (Inr blk, insert_block cfg c (ref, i) blk, N')))"

text \<open>Modelled from the spec: the blocks of a covering set, in order (section 4.2); the
  first failure propagates unchanged (section 7).\<close>

fun get_blocks ::
  "config \<Rightarrow> object_store \<Rightarrow> object_ref \<Rightarrow> nat list \<Rightarrow> cache \<Rightarrow> network
     \<Rightarrow> (vfs_error + byte list list) \<times> cache \<times> network"
where
  "get_blocks cfg S ref [] c N = (Inr [], c, N)"
| "get_blocks cfg S ref (i # is) c N =
     (case get_block cfg S ref i c N of
        (Inl e, c', N') \<Rightarrow> (Inl e, c', N')
      | (Inr blk, c', N') \<Rightarrow>
          (case get_blocks cfg S ref is c' N' of
             (Inl e, c'', N'') \<Rightarrow> (Inl e, c'', N'')
           | (Inr blks, c'', N'') \<Rightarrow> (Inr (blk # blks), c'', N'')))"

text \<open>Modelled from the spec: the covering set of block indices for
  \<open>[offset, offset + len)\<close> (section 4.2).\<close>

definition covering :: "config \<Rightarrow> nat \<Rightarrow> nat \<Rightarrow> nat list" where
  "covering cfg offset len =
     (if len = 0 then []
      else [offset div block_size cfg ..< Suc ((offset + len - 1) div block_size cfg)])"

text \<open>Modelled from the spec: \<^verbatim>\<open>read(object_ref, offset, length)\<close> of the Page Cache
  (section 4.2): the covering blocks are obtained and the range is sliced out of them.\<close>

definition cache_read ::
  "config \<Rightarrow> object_store \<Rightarrow> object_ref \<Rightarrow> nat \<Rightarrow> nat \<Rightarrow> cache \<Rightarrow> network
     \<Rightarrow> (vfs_error + byte list) \<times> cache \<times> network"
where
  "cache_read cfg S ref offset len c N =
     (case get_blocks cfg S ref (covering cfg offset len) c N of
        (Inl e, c', N') \<Rightarrow> (Inl e, c', N')
      | (Inr blks, c', N') \<Rightarrow>
          (Inr (take len
                 (drop (offset - (offset div block_size cfg) * block_size cfg) (concat blks))),
           c', N'))"

text \<open>Modelled from the spec: the lock modes and the Virtual File Handle State of
  section 3.\<close>

datatype lock_mode = LockNone | LockShared | LockExclusive

record handle =
  h_ref :: object_ref
  h_size :: nat
  h_lock :: lock_mode
  h_closed :: bool

text \<open>Modelled from the spec: what the handles share (section 5): the Page Cache and the
  network of the Range Fetcher.\<close>

record vfs_state =
  cache_of :: cache
  net_of :: network

text \<open>Modelled from the spec: \<^verbatim>\<open>open(uri)\<close> of the Virtual Filesystem Registry
  (section 4.4): a malformed URI fails with InvalidArgument, a failing size probe fails
  the open, else the handle carries the probed size.\<close>

definition vfs_open ::
  "config \<Rightarrow> object_store \<Rightarrow> string \<Rightarrow> vfs_state \<Rightarrow> (vfs_error + handle) \<times> vfs_state"
where
  "vfs_open cfg S uri st =
     (case parse_uri cfg uri of
        None \<Rightarrow> (Inl InvalidArgument, st)
      | Some ref \<Rightarrow>
          (case probe_size cfg S (net_of st) ref of
             (Inl e, N') \<Rightarrow> (Inl e, st\<lparr>net_of := N'\<rparr>)
           | (Inr n, N') \<Rightarrow>
               (Inr \<lparr>h_ref = ref, h_size = n, h_lock = LockNone, h_closed = False\<rparr>,
                st\<lparr>net_of := N'\<rparr>)))"

text \<open>Modelled from the spec: \<^verbatim>\<open>size()\<close> of the Virtual File Handle (section 4.3): the
  cached Object Size.\<close>

definition vfs_size :: "handle \<Rightarrow> nat" where
  "vfs_size h = h_size h"

text \<open>Modelled from the spec: \<^verbatim>\<open>read_at(offset, length)\<close> of the Virtual File Handle
  (section 4.3): ShortRead when the range extends beyond the Object Size, else the Page
  Cache; a surfaced Transient becomes the generic I/O failure (section 4.1), every other
  failure propagates unchanged (section 7).\<close>

definition read_at ::
  "config \<Rightarrow> object_store \<Rightarrow> handle \<Rightarrow> nat \<Rightarrow> nat \<Rightarrow> vfs_state
     \<Rightarrow> (vfs_error + byte list) \<times> vfs_state"
where
  "read_at cfg S h offset len st =
     (if h_size h < offset + len then (Inl ShortRead, st)
      else
        (case cache_read cfg S (h_ref h) offset len (cache_of st) (net_of st) of
           (Inl e, c', N') \<Rightarrow>
             (Inl (if e = Transient then IOFailure else e), \<lparr>cache_of = c', net_of = N'\<rparr>)
         | (Inr bytes, c', N') \<Rightarrow> (Inr bytes, \<lparr>cache_of = c', net_of = N'\<rparr>)))"

text \<open>Modelled from the spec: \<^verbatim>\<open>write_at(...)\<close> and \<^verbatim>\<open>truncate(...)\<close> of the Virtual
  File Handle (section 4.3) and \<^verbatim>\<open>delete(uri)\<close> of the Registry (section 4.4). Each
  returns its outcome with the handle and the shared state it leaves behind.\<close>

definition write_at ::
  "handle \<Rightarrow> nat \<Rightarrow> byte list \<Rightarrow> vfs_state \<Rightarrow> (vfs_error + unit) \<times> handle \<times> vfs_state"
where
  "write_at h offset bytes st = (Inl Unsupported, h, st)"

definition truncate :: "handle \<Rightarrow> nat \<Rightarrow> vfs_state \<Rightarrow> (vfs_error + unit) \<times> handle \<times> vfs_state"
where
  "truncate h new_size st = (Inl Unsupported, h, st)"

definition vfs_delete :: "string \<Rightarrow> vfs_state \<Rightarrow> (vfs_error + unit) \<times> vfs_state" where
  "vfs_delete uri st = (Inl Unsupported, st)"



section \<open>Notions the properties are stated with\<close>

subsection \<open>Listing pages\<close>

text \<open>
  The names one page of a listing contributes, by the two replacements of line 41, and the
  requests a listing of several pages issues: the first as it was built, each later one
  with the continuation token of the page before.
\<close>

definition page_names :: "env \<Rightarrow> list_response \<Rightarrow> string list" where
  "page_names E page =
     map (\<lambda>data. py_replace ''.sqlite'' [] (py_replace (S3_PREFIX E @ ''/'') [] (Key data)))
       (response_contents page)"

definition page_requests :: "list_params \<Rightarrow> list_response list \<Rightarrow> list_params list" where
  "page_requests params pages =
     params # map (\<lambda>page. params\<lparr>ContinuationToken := NextContinuationToken page\<rparr>) pages"

subsection \<open>Request types, connection URIs, read-only effects\<close>

text \<open>The seven request types that have a branch in the dispatcher.\<close>

definition handled_request_types :: "string list" where
  "handled_request_types =
     [''ListSchemasRequest'', ''ListTablesRequest'', ''GetTableRequest'', ''PingRequest'',
      ''GetTableLayoutRequest'', ''GetSplitsRequest'', ''ReadRecordsRequest'']"

text \<open>
  The open URI format of the specification, section 6, as the glue instantiates it: the
  object key as the path and the bucket as a query parameter. The path of a URI is what
  precedes its first question mark, the query what follows it.
\<close>

definition connection_uri :: "string \<Rightarrow> string \<Rightarrow> string \<Rightarrow> string" where
  "connection_uri prefix schema bucket =
     ''file:/'' @ prefix @ ''/'' @ schema @ ''.sqlite?bucket='' @ bucket"

definition uri_path :: "string \<Rightarrow> string" where
  "uri_path uri = takeWhile (\<lambda>c. c \<noteq> CHR ''?'') uri"

definition uri_query :: "string \<Rightarrow> string" where
  "uri_query uri = drop 1 (dropWhile (\<lambda>c. c \<noteq> CHR ''?'') uri)"

text \<open>
  An effect writes nothing when it is a listing, a connection opened with exactly the
  flags READONLY and URI (so that neither READWRITE nor CREATE is set), or a statement
  that begins with SELECT.
\<close>

definition is_select :: "string \<Rightarrow> bool" where
  "is_select sql = (take 7 sql = ''SELECT '')"

fun read_only_effect :: "effect \<Rightarrow> bool" where
  "read_only_effect (S3ListObjectsV2 params) = True"
| "read_only_effect (DbConnect uri flags vfs) =
     (flags = SQLITE_OPEN_READONLY OR SQLITE_OPEN_URI
      \<and> flags AND SQLITE_OPEN_READWRITE = 0 \<and> flags AND SQLITE_OPEN_CREATE = 0)"
| "read_only_effect (DbExecute sql) = is_select sql"

subsection \<open>Sample inputs\<close>

text \<open>
  A deployment with bucket \<^verbatim>\<open>databases\<close> and prefix \<^verbatim>\<open>sqlite/\<close>, a bucket listing of two
  pages, a database whose every query yields two rows, and two requests.
\<close>

definition example_env :: env where
  "example_env =
     \<lparr>TARGET_BUCKET = ''databases'', TARGET_PREFIX = ''sqlite/'',
      str_other = (\<lambda>v. ''?''), vfsname = ''s3vfs'',
      schema_b64 = (\<lambda>schema. ''SCHEMA''), from_arrays_ok = (\<lambda>schema arrays. True),
      batch_b64 = (\<lambda>batch. ''BATCH'')\<rparr>"

definition example_rows :: "sqlval list list" where
  "example_rows =
     [[SInt 2020, SInt 1, SInt 2, SText ''a''], [SInt 2019, SInt 12, SInt 31, SNull]]"

definition example_world :: world where
  "example_world =
     \<lparr>s3_replies =
        [Inr \<lparr>Contents = Some [\<lparr>Key = ''sqlite/''\<rparr>, \<lparr>Key = ''sqlite/sales.sqlite''\<rparr>],
              NextContinuationToken = Some ''t1''\<rparr>,
         Inr \<lparr>Contents = Some [\<lparr>Key = ''sqlite/a.sql.sqliteite''\<rparr>],
              NextContinuationToken = None\<rparr>],
      connect = (\<lambda>uri flags vfs. Inr (\<lambda>sql. Inr example_rows)),
      uuid4 = (\<lambda>k. ''4d1e8a8e-0000-4000-8000-000000000000'')\<rparr>"

definition example_read_event :: pydict where
  "example_read_event =
     [(''@type'', PStr ''ReadRecordsRequest''), (''catalogName'', PStr ''sqlite'')]"

definition example_list_event :: pydict where
  "example_list_event =
     [(''@type'', PStr ''ListSchemasRequest''), (''catalogName'', PStr ''sqlite'')]"

text \<open>
  An object of ten bytes, a configuration with blocks of four bytes, room for two blocks
  and the maximum attempt count of three that section 4.1 of the specification gives as
  its example, a network whose next three requests fail and whose fourth succeeds, and a
  handle on the object.
\<close>

definition example_ref :: object_ref where
  "example_ref = \<lparr>ref_bucket = ''databases'', ref_key = ''sqlite/sample_data.sqlite''\<rparr>"

definition example_bytes :: "byte list" where
  "example_bytes = [83, 81, 76, 105, 116, 101, 32, 102, 111, 114]"

definition example_store :: object_store where
  "example_store ref = (if ref = example_ref then Some example_bytes else None)"

definition example_config :: config where
  "example_config =
     \<lparr>block_size = 4, capacity = 8, max_attempts = 3,
      parse_uri = (\<lambda>uri. if uri = ''file:/sqlite/sample_data.sqlite?bucket=databases''
                          then Some example_ref else None)\<rparr>"


definition example_state :: vfs_state where
  "example_state = \<lparr>cache_of = [], net_of = \<lparr>faults = [True, False], attempts = 0\<rparr>\<rparr>"

definition example_handle :: handle where
  "example_handle = \<lparr>h_ref = example_ref, h_size = 10, h_lock = LockNone, h_closed = False\<rparr>"

section \<open>Properties of the glue\<close>

subsection \<open>Auxiliary facts\<close>

lemma py_format_uri3:
  "py_format ''file:/{}/{}.sqlite?bucket={}'' [a, b, c]
     = Inr (''file:/'' @ a @ ''/'' @ b @ ''.sqlite?bucket='' @ c)"
  by (simp add: bind_err_def)

lemma py_format_uri2:
  "py_format ''file:/{}/sample_data.sqlite?bucket={}'' [a, c]
     = Inr (''file:/'' @ a @ ''/sample_data.sqlite?bucket='' @ c)"
  by (simp add: bind_err_def)

lemma load_global_tables: "load_global E ''tables'' = Inl NameError"
  by (simp add: load_global_def module_globals_def py_builtins_def)

lemma load_global_sqlite_dbname: "load_global E ''sqlite_dbname'' = Inl NameError"
  by (simp add: load_global_def module_globals_def py_builtins_def)

lemma flags_value: "SQLITE_OPEN_READONLY OR SQLITE_OPEN_URI = (65::int)"
  by (simp add: SQLITE_OPEN_READONLY_def SQLITE_OPEN_URI_def)

lemma flags_read_only:
  "(65::int) AND SQLITE_OPEN_READWRITE = 0" "(65::int) AND SQLITE_OPEN_CREATE = 0"
  by (simp_all add: SQLITE_OPEN_READWRITE_def SQLITE_OPEN_CREATE_def)

lemma S3_PREFIX_example: "S3_PREFIX example_env = ''sqlite''"
  by (simp add: S3_PREFIX_def example_env_def rstrip_def)

subsection \<open>Dispatch on the request type\<close>

text \<open>
  Claim C10. \<^verbatim>\<open>lambda_handler\<close> looks at the event's \<^verbatim>\<open>'@type'\<close> only: an event without
  that key raises KeyError, and an event whose \<^verbatim>\<open>'@type'\<close> is none of the seven handled
  request types (a value that is not a string included) falls off the \<^verbatim>\<open>if\<close> chain,
  returns None and has no effect.
\<close>

theorem lambda_handler_dispatch:
  "(map_of event ''@type'' = None \<longrightarrow>
      lambda_handler E W event ctx = (Some (Inl KeyError), []))
   \<and> (\<forall>request_type. map_of event ''@type'' = Some request_type
          \<and> request_type \<notin> PStr ` set handled_request_types \<longrightarrow>
        lambda_handler E W event ctx = (Some (Inr PNone), []))"
  by (simp add: lambda_handler_def dict_item_def handled_request_types_def)

text \<open>The empty event, an unknown request type and a request type that is a number.\<close>

theorem lambda_handler_dispatch_witness:
  "map_of ([] :: pydict) ''@type'' = None
   \<and> lambda_handler example_env example_world [] () = (Some (Inl KeyError), [])
   \<and> map_of [(''@type'', PStr ''DropTableRequest'')] ''@type'' = Some (PStr ''DropTableRequest'')
   \<and> PStr ''DropTableRequest'' \<notin> PStr ` set handled_request_types
   \<and> map_of [(''@type'', PInt 7)] ''@type'' = Some (PInt 7)
   \<and> PInt 7 \<notin> PStr ` set handled_request_types
   \<and> lambda_handler example_env example_world [(''@type'', PStr ''DropTableRequest'')] ()
       = (Some (Inr PNone), [])
   \<and> lambda_handler example_env example_world [(''@type'', PInt 7)] ()
       = (Some (Inr PNone), [])"
  using lambda_handler_dispatch [where event = "[]" and E = example_env and W = example_world
      and ctx = "()"]
    lambda_handler_dispatch [where event = "[(''@type'', PStr ''DropTableRequest'')]"
      and E = example_env and W = example_world and ctx = "()"]
    lambda_handler_dispatch [where event = "[(''@type'', PInt 7)]"
      and E = example_env and W = example_world and ctx = "()"]
  by (simp add: handled_request_types_def)

subsection \<open>The connection URIs\<close>

lemma list_tables_vfs_path_eq:
  "list_tables_vfs_path E event =
     Inr (''file:/'' @ S3_PREFIX E @ ''/'' @ py_str (str_other E) (dict_get event ''schemaName'')
            @ ''.sqlite?bucket='' @ S3_BUCKET E)"
  unfolding list_tables_vfs_path_def Let_def by (rule py_format_uri3)

lemma read_records_vfs_path_eq:
  "read_records_vfs_path E =
     Inr (''file:/'' @ S3_PREFIX E @ ''/sample_data.sqlite?bucket='' @ S3_BUCKET E)"
  unfolding read_records_vfs_path_def by (rule py_format_uri2)

subsection \<open>\<^verbatim>\<open>ListTablesRequest.execute\<close> never answers\<close>

text \<open>
  Claim C9, amended. The entries of the response are evaluated in order, so
  \<^verbatim>\<open>event['catalogName']\<close> comes before \<^verbatim>\<open>tables\<close>: an event that has a
  \<^verbatim>\<open>catalogName\<close> raises NameError at the unbound \<^verbatim>\<open>tables\<close>, an event that lacks it
  raises KeyError before that. No event gets a response. Through the dispatcher the
  request has no effect at all, so \<^verbatim>\<open>_fetch_table_list\<close> is not called; its loop body
  would raise NameError at \<^verbatim>\<open>sqlite_dbname\<close> on the first row.
\<close>

theorem list_tables_unbound_name:
  "(map_of event ''catalogName'' \<noteq> None \<longrightarrow> ListTablesRequest_execute E event = Inl NameError)
   \<and> (map_of event ''catalogName'' = None \<longrightarrow> ListTablesRequest_execute E event = Inl KeyError)
   \<and> (\<forall>response. ListTablesRequest_execute E event \<noteq> Inr response)
   \<and> (map_of event ''@type'' = Some (PStr ''ListTablesRequest'') \<longrightarrow>
        lambda_handler E W event ctx = (Some (ListTablesRequest_execute E event), []))
   \<and> (row \<noteq> [] \<longrightarrow> fetch_table_rows E (row # rows) tables = Inl NameError)"
  by (auto simp: ListTablesRequest_execute_def list_tables_vfs_path_eq bind_err_def dict_item_def
        load_global_tables load_global_sqlite_dbname lambda_handler_def row_item_def
      split: option.splits)

theorem list_tables_unbound_name_witness:
  "map_of [(''@type'', PStr ''ListTablesRequest''), (''catalogName'', PStr ''sqlite'')]
     ''catalogName'' \<noteq> None
   \<and> ListTablesRequest_execute example_env
        [(''@type'', PStr ''ListTablesRequest''), (''catalogName'', PStr ''sqlite'')]
       = Inl NameError
   \<and> map_of [(''@type'', PStr ''ListTablesRequest'')] ''catalogName'' = None
   \<and> ListTablesRequest_execute example_env [(''@type'', PStr ''ListTablesRequest'')]
       = Inl KeyError
   \<and> lambda_handler example_env example_world
        [(''@type'', PStr ''ListTablesRequest''), (''catalogName'', PStr ''sqlite'')] ()
       = (Some (Inl NameError), [])
   \<and> [SText ''records''] \<noteq> []
   \<and> fetch_table_rows example_env [[SText ''records'']] [] = Inl NameError"
  using list_tables_unbound_name
      [where event = "[(''@type'', PStr ''ListTablesRequest''), (''catalogName'', PStr ''sqlite'')]"
        and E = example_env and W = example_world and ctx = "()"
        and row = "[SText ''records'']" and rows = "[]" and tables = "[]"]
    list_tables_unbound_name
      [where event = "[(''@type'', PStr ''ListTablesRequest'')]"
        and E = example_env and W = example_world and ctx = "()"
        and row = "[SText ''records'']" and rows = "[]" and tables = "[]"]
  by simp

text \<open>
  The claim as it was stated, NameError for every event, fails on a request that names
  its schema and carries no \<^verbatim>\<open>catalogName\<close>.
\<close>

theorem list_tables_key_error_counterexample:
  "ListTablesRequest_execute example_env
     [(''@type'', PStr ''ListTablesRequest''), (''schemaName'', PStr ''sales'')] = Inl KeyError
   \<and> ListTablesRequest_execute example_env
     [(''@type'', PStr ''ListTablesRequest''), (''schemaName'', PStr ''sales'')] \<noteq> Inl NameError"
  by (simp add: ListTablesRequest_execute_def list_tables_vfs_path_eq bind_err_def dict_item_def)

subsection \<open>The effects of an invocation\<close>

lemma list_loop_effects:
  "list_loop E params replies acc = (r, log) \<Longrightarrow> e \<in> set log \<Longrightarrow> \<exists>p. e = S3ListObjectsV2 p"
proof (induction replies arbitrary: params acc r log)
  case Nil
  then show ?case by auto
next
  case (Cons reply replies)
  show ?case
  proof (cases reply)
    case (Inl err)
    with Cons.prems show ?thesis by auto
  next
    case (Inr response)
    show ?thesis
    proof (cases "NextContinuationToken response")
      case None
      with Inr Cons.prems show ?thesis by auto
    next
      case (Some token)
      with Inr Cons.prems show ?thesis
        by (auto simp: Let_def split: prod.splits dest: Cons.IH)
    qed
  qed
qed

lemma list_schemas_effects:
  assumes "e \<in> set (snd (ListSchemasRequest_execute E W event))"
  shows "\<exists>p. e = S3ListObjectsV2 p"
proof (cases "dict_item event ''catalogName''")
  case (Inl err)
  with assms show ?thesis by (simp add: ListSchemasRequest_execute_def)
next
  case (Inr c)
  obtain r log where rl: "list_sqlite_objects E W = (r, log)" by (cases "list_sqlite_objects E W")
  with Inr assms have "e \<in> set log"
    by (auto simp: ListSchemasRequest_execute_def split: option.splits sum.splits)
  with rl show ?thesis unfolding list_sqlite_objects_def by (rule list_loop_effects)
qed

lemma read_records_effects:
  assumes "e \<in> set (snd (read_records E W event))"
  shows "e = DbConnect (''file:/'' @ S3_PREFIX E @ ''/sample_data.sqlite?bucket='' @ S3_BUCKET E)
               (SQLITE_OPEN_READONLY OR SQLITE_OPEN_URI) (vfsname E)
         \<or> e = DbExecute ''SELECT * FROM records''"
  using assms
  by (auto simp: read_records_def read_records_vfs_path_eq Let_def read_records_query_def
      split: sum.splits)

lemma lambda_handler_effects:
  assumes "e \<in> set (snd (lambda_handler E W event ctx))"
  shows "(\<exists>p. e = S3ListObjectsV2 p)
         \<or> e = DbConnect (''file:/'' @ S3_PREFIX E @ ''/sample_data.sqlite?bucket='' @ S3_BUCKET E)
               (SQLITE_OPEN_READONLY OR SQLITE_OPEN_URI) (vfsname E)
         \<or> e = DbExecute ''SELECT * FROM records''"
proof (cases "dict_item event ''@type''")
  case (Inl err)
  with assms show ?thesis by (simp add: lambda_handler_def)
next
  case (Inr request_type)
  with assms have "e \<in> set (snd (ListSchemasRequest_execute E W event))
      \<or> e \<in> set (snd (read_records E W event))"
    by (simp add: lambda_handler_def split: if_splits)
  then show ?thesis using list_schemas_effects read_records_effects by blast
qed

lemma fetch_table_list_effects:
  assumes "e \<in> set (snd (fetch_table_list E W path))"
  shows "e = DbConnect path (SQLITE_OPEN_READONLY OR SQLITE_OPEN_URI) (vfsname E)
         \<or> e = DbExecute table_list_query"
  using assms by (auto simp: fetch_table_list_def Let_def split: sum.splits)

lemma is_select_queries: "is_select ''SELECT * FROM records''" "is_select table_list_query"
  by (simp_all add: is_select_def table_list_query_def)

lemma example_env_fields:
  "S3_BUCKET example_env = ''databases''" "vfsname example_env = ''s3vfs''"
  "schema_b64 example_env schema = ''SCHEMA''" "from_arrays_ok example_env sch arrays"
  "batch_b64 example_env batch = ''BATCH''" "str_other example_env v = ''?''"
  by (simp_all add: S3_BUCKET_def example_env_def)

lemma example_world_fields:
  "connect example_world uri flags vfs = Inr (\<lambda>sql. Inr example_rows)"
  "uuid4 example_world k = ''4d1e8a8e-0000-4000-8000-000000000000''"
  by (simp_all add: example_world_def)

lemma example_read_effects:
  "snd (lambda_handler example_env example_world example_read_event ()) =
     [DbConnect ''file:/sqlite/sample_data.sqlite?bucket=databases'' 65 ''s3vfs'',
      DbExecute ''SELECT * FROM records'']"
  by (simp add: lambda_handler_def dict_item_def example_read_event_def read_records_def
      read_records_vfs_path_eq S3_PREFIX_example example_env_fields example_world_fields
      flags_value Let_def read_records_query_def)

subsection \<open>Nothing is written\<close>

text \<open>
  Claim C3. Whatever the event, every connection \<^verbatim>\<open>lambda_handler\<close> opens is opened with
  the flags \<^verbatim>\<open>SQLITE_OPEN_READONLY | SQLITE_OPEN_URI\<close> (neither READWRITE nor CREATE is
  set) and every statement it executes is a SELECT; the same holds of the helper
  \<^verbatim>\<open>_fetch_table_list\<close>. The only other effect is listing the bucket.
\<close>

theorem glue_read_only:
  "\<forall>e \<in> set (snd (lambda_handler E W event ctx)) \<union> set (snd (fetch_table_list E W path)).
     read_only_effect e"
proof
  fix e
  assume "e \<in> set (snd (lambda_handler E W event ctx)) \<union> set (snd (fetch_table_list E W path))"
  then consider "e \<in> set (snd (lambda_handler E W event ctx))"
    | "e \<in> set (snd (fetch_table_list E W path))" by blast
  then show "read_only_effect e"
  proof cases
    case 1
    from lambda_handler_effects [OF 1] show ?thesis
      by (auto simp: flags_value flags_read_only is_select_queries)
  next
    case 2
    from fetch_table_list_effects [OF 2] show ?thesis
      by (auto simp: flags_value flags_read_only is_select_queries)
  qed
qed

theorem glue_read_only_witness:
  "DbConnect ''file:/sqlite/sample_data.sqlite?bucket=databases'' 65 ''s3vfs''
     \<in> set (snd (lambda_handler example_env example_world example_read_event ()))
   \<and> DbExecute ''SELECT * FROM records''
     \<in> set (snd (lambda_handler example_env example_world example_read_event ()))
   \<and> DbExecute table_list_query
     \<in> set (snd (fetch_table_list example_env example_world
                    ''file:/sqlite/sales.sqlite?bucket=databases''))
   \<and> read_only_effect (DbConnect ''file:/sqlite/sample_data.sqlite?bucket=databases'' 65 ''s3vfs'')
   \<and> read_only_effect (DbExecute ''SELECT * FROM records'')
   \<and> read_only_effect (DbExecute table_list_query)"
proof -
  let ?log = "snd (lambda_handler example_env example_world example_read_event ())"
  let ?helper = "snd (fetch_table_list example_env example_world
      ''file:/sqlite/sales.sqlite?bucket=databases'')"
  have opened: "DbConnect ''file:/sqlite/sample_data.sqlite?bucket=databases'' 65 ''s3vfs''
      \<in> set ?log"
    and executed: "DbExecute ''SELECT * FROM records'' \<in> set ?log"
    by (simp_all add: example_read_effects)
  have listed: "DbExecute table_list_query \<in> set ?helper"
    by (simp add: fetch_table_list_def Let_def example_world_fields)
  note claim = glue_read_only [where E = example_env and W = example_world
      and event = example_read_event and ctx = "()"
      and path = "''file:/sqlite/sales.sqlite?bucket=databases''"]
  from claim opened
  have "read_only_effect (DbConnect ''file:/sqlite/sample_data.sqlite?bucket=databases'' 65 ''s3vfs'')"
    by blast
  moreover from claim executed have "read_only_effect (DbExecute ''SELECT * FROM records'')"
    by blast
  moreover from claim listed have "read_only_effect (DbExecute table_list_query)"
    by blast
  ultimately show ?thesis using opened executed listed by simp
qed

subsection \<open>The shape of a connection URI\<close>

lemma uri_path_connection_uri:
  assumes "CHR ''?'' \<notin> set prefix" "CHR ''?'' \<notin> set schema"
  shows "uri_path (connection_uri prefix schema bucket) = ''file:/'' @ prefix @ ''/'' @ schema @ ''.sqlite''"
proof -
  have "connection_uri prefix schema bucket
          = (''file:/'' @ prefix @ ''/'' @ schema @ ''.sqlite'') @ CHR ''?'' # (''bucket='' @ bucket)"
    by (simp add: connection_uri_def)
  moreover have "\<forall>c \<in> set (''file:/'' @ prefix @ ''/'' @ schema @ ''.sqlite''). c \<noteq> CHR ''?''"
    using assms by auto
  ultimately show ?thesis
    unfolding uri_path_def by (simp only: takeWhile_append2 takeWhile.simps) simp
qed

lemma uri_query_connection_uri:
  assumes "CHR ''?'' \<notin> set prefix" "CHR ''?'' \<notin> set schema"
  shows "uri_query (connection_uri prefix schema bucket) = ''bucket='' @ bucket"
proof -
  have "connection_uri prefix schema bucket
          = (''file:/'' @ prefix @ ''/'' @ schema @ ''.sqlite'') @ CHR ''?'' # (''bucket='' @ bucket)"
    by (simp add: connection_uri_def)
  moreover have "\<forall>c \<in> set (''file:/'' @ prefix @ ''/'' @ schema @ ''.sqlite''). c \<noteq> CHR ''?''"
    using assms by auto
  ultimately show ?thesis
    unfolding uri_query_def by (simp only: dropWhile_append2 dropWhile.simps) simp
qed

text \<open>
  Claim C4. Both URIs the glue builds are \<^verbatim>\<open>file:/{prefix}/{schema}.sqlite?bucket={bucket}\<close>:
  the one of \<^verbatim>\<open>ListTablesRequest.execute\<close> with the text of the event's
  \<^verbatim>\<open>schemaName\<close> as schema, the one of the ReadRecordsRequest branch with the schema
  \<^verbatim>\<open>sample_data\<close>, and the latter is the only URI a connection is opened with. Unless a
  question mark occurs in the prefix or the schema, the part before the first question
  mark is the path with the object key and the part after it is the parameter
  \<^verbatim>\<open>bucket\<close>.
\<close>

theorem connection_uri_format:
  "list_tables_vfs_path E event =
     Inr (connection_uri (S3_PREFIX E) (py_str (str_other E) (dict_get event ''schemaName''))
            (S3_BUCKET E))
   \<and> read_records_vfs_path E = Inr (connection_uri (S3_PREFIX E) ''sample_data'' (S3_BUCKET E))
   \<and> (\<forall>uri flags vfs. DbConnect uri flags vfs \<in> set (snd (lambda_handler E W event ctx)) \<longrightarrow>
         uri = connection_uri (S3_PREFIX E) ''sample_data'' (S3_BUCKET E))
   \<and> (CHR ''?'' \<notin> set prefix \<and> CHR ''?'' \<notin> set schema \<longrightarrow>
         uri_path (connection_uri prefix schema bucket)
           = ''file:/'' @ prefix @ ''/'' @ schema @ ''.sqlite''
         \<and> uri_query (connection_uri prefix schema bucket) = ''bucket='' @ bucket)"
proof (intro conjI allI impI)
  show "list_tables_vfs_path E event =
     Inr (connection_uri (S3_PREFIX E) (py_str (str_other E) (dict_get event ''schemaName''))
            (S3_BUCKET E))"
    by (simp add: list_tables_vfs_path_eq connection_uri_def)
  show "read_records_vfs_path E = Inr (connection_uri (S3_PREFIX E) ''sample_data'' (S3_BUCKET E))"
    by (simp add: read_records_vfs_path_eq connection_uri_def)
next
  fix uri flags vfs
  assume "DbConnect uri flags vfs \<in> set (snd (lambda_handler E W event ctx))"
  from lambda_handler_effects [OF this]
  show "uri = connection_uri (S3_PREFIX E) ''sample_data'' (S3_BUCKET E)"
    by (auto simp: connection_uri_def)
next
  assume "CHR ''?'' \<notin> set prefix \<and> CHR ''?'' \<notin> set schema"
  then show "uri_path (connection_uri prefix schema bucket)
           = ''file:/'' @ prefix @ ''/'' @ schema @ ''.sqlite''"
    by (simp add: uri_path_connection_uri)
next
  assume "CHR ''?'' \<notin> set prefix \<and> CHR ''?'' \<notin> set schema"
  then show "uri_query (connection_uri prefix schema bucket) = ''bucket='' @ bucket"
    by (simp add: uri_query_connection_uri)
qed

theorem connection_uri_format_witness:
  "list_tables_vfs_path example_env [(''schemaName'', PStr ''sales'')]
     = Inr ''file:/sqlite/sales.sqlite?bucket=databases''
   \<and> read_records_vfs_path example_env = Inr ''file:/sqlite/sample_data.sqlite?bucket=databases''
   \<and> DbConnect ''file:/sqlite/sample_data.sqlite?bucket=databases'' 65 ''s3vfs''
       \<in> set (snd (lambda_handler example_env example_world example_read_event ()))
   \<and> CHR ''?'' \<notin> set ''sqlite'' \<and> CHR ''?'' \<notin> set ''sales''
   \<and> uri_path ''file:/sqlite/sales.sqlite?bucket=databases'' = ''file:/sqlite/sales.sqlite''
   \<and> uri_query ''file:/sqlite/sales.sqlite?bucket=databases'' = ''bucket=databases''"
  using connection_uri_format [where E = example_env and W = example_world
      and event = "[(''schemaName'', PStr ''sales'')]" and ctx = "()"
      and prefix = "''sqlite''" and schema = "''sales''" and bucket = "''databases''"]
    connection_uri_format [where E = example_env and W = example_world
      and event = example_read_event and ctx = "()"
      and prefix = "''sqlite''" and schema = "''sales''" and bucket = "''databases''"]
  by (simp add: example_read_effects connection_uri_def S3_PREFIX_example example_env_fields
      py_str_def dict_get_def)

subsection \<open>Reading records\<close>

lemma collect_rows_columns:
  assumes "\<forall>row \<in> set rows. 4 \<le> length row"
  shows "collect_rows (ys, ms, ds, vs) rows =
     Inr (ys @ map (\<lambda>row. row ! 0) rows, ms @ map (\<lambda>row. row ! 1) rows,
          ds @ map (\<lambda>row. row ! 2) rows, vs @ map (\<lambda>row. row ! 3) rows)"
  using assms
proof (induction rows arbitrary: ys ms ds vs)
  case Nil
  then show ?case by simp
next
  case (Cons row rows)
  then have "4 \<le> length row" by simp
  then have "row_item row 0 = Inr (row ! 0)" "row_item row 1 = Inr (row ! 1)"
    "row_item row 2 = Inr (row ! 2)" "row_item row 3 = Inr (row ! 3)"
    unfolding row_item_def by auto
  then have "append_row (ys, ms, ds, vs) row
      = Inr (ys @ [row ! 0], ms @ [row ! 1], ds @ [row ! 2], vs @ [row ! 3])"
    by (simp add: append_row_def bind_err_def)
  with Cons show ?case by simp
qed

lemma collect_rows_short:
  assumes "length row < 4"
  shows "collect_rows records (row # rows) = Inl IndexError"
  using assms
  by (cases records) (auto simp: append_row_def row_item_def bind_err_def)

text \<open>
  Claim C5, amended. For every ReadRecordsRequest event that has a \<^verbatim>\<open>catalogName\<close>:
  when the connection to \<^verbatim>\<open>file:/{prefix}/sample_data.sqlite?bucket={bucket}\<close> opens
  (read-only, by URI, through the S3 virtual filesystem), \<^verbatim>\<open>SELECT * FROM records\<close>
  yields rows of at least four columns each and the Arrow library accepts the four
  columns under the schema (year: int64, month: int64, day: int64, someval: string), the
  handler opens that connection, executes that query and nothing else, and returns a
  ReadRecordsResponse with the event's \<^verbatim>\<open>catalogName\<close> whose records block is the
  batch of the first four columns of the rows, in query order, under that schema.
\<close>

theorem read_records_rows:
  assumes "map_of event ''@type'' = Some (PStr ''ReadRecordsRequest'')"
    and "map_of event ''catalogName'' = Some catalogName"
    and "connect W (''file:/'' @ S3_PREFIX E @ ''/sample_data.sqlite?bucket='' @ S3_BUCKET E)
           (SQLITE_OPEN_READONLY OR SQLITE_OPEN_URI) (vfsname E) = Inr s3db"
    and "s3db ''SELECT * FROM records'' = Inr rows"
    and "\<forall>row \<in> set rows. 4 \<le> length row"
    and "from_arrays_ok E
           (Some [(''year'', Int64), (''month'', Int64), (''day'', Int64), (''someval'', String)])
           [map (\<lambda>row. row ! 0) rows, map (\<lambda>row. row ! 1) rows,
            map (\<lambda>row. row ! 2) rows, map (\<lambda>row. row ! 3) rows]"
  shows "lambda_handler E W event ctx =
     (Some (Inr (PDict
        [(''@type'', PStr ''ReadRecordsResponse''),
         (''catalogName'', catalogName),
         (''records'', PDict
            [(''aId'', PStr (uuid4 W 0)),
             (''schema'', PStr (schema_b64 E
                [(''year'', Int64), (''month'', Int64), (''day'', Int64), (''someval'', String)])),
             (''records'', PStr (batch_b64 E (RecordBatch
                (Some [(''year'', Int64), (''month'', Int64), (''day'', Int64),
                       (''someval'', String)])
                [map (\<lambda>row. row ! 0) rows, map (\<lambda>row. row ! 1) rows,
                 map (\<lambda>row. row ! 2) rows, map (\<lambda>row. row ! 3) rows])))]),
         (''requestType'', PStr ''READ_RECORDS'')])),
      [DbConnect (''file:/'' @ S3_PREFIX E @ ''/sample_data.sqlite?bucket='' @ S3_BUCKET E)
         (SQLITE_OPEN_READONLY OR SQLITE_OPEN_URI) (vfsname E),
       DbExecute ''SELECT * FROM records''])"
proof -
  have dispatch: "lambda_handler E W event ctx = read_records E W event"
    using assms(1) by (simp add: lambda_handler_def dict_item_def)
  have cols: "collect_rows ([], [], [], []) rows =
     Inr (map (\<lambda>row. row ! 0) rows, map (\<lambda>row. row ! 1) rows,
          map (\<lambda>row. row ! 2) rows, map (\<lambda>row. row ! 3) rows)"
    using collect_rows_columns [OF assms(5), of "[]" "[]" "[]" "[]"] by simp
  have resp: "read_records_response E W event
     (map (\<lambda>row. row ! 0) rows, map (\<lambda>row. row ! 1) rows,
      map (\<lambda>row. row ! 2) rows, map (\<lambda>row. row ! 3) rows) =
     Inr (PDict
        [(''@type'', PStr ''ReadRecordsResponse''),
         (''catalogName'', catalogName),
         (''records'', PDict
            [(''aId'', PStr (uuid4 W 0)),
             (''schema'', PStr (schema_b64 E
                [(''year'', Int64), (''month'', Int64), (''day'', Int64), (''someval'', String)])),
             (''records'', PStr (batch_b64 E (RecordBatch
                (Some [(''year'', Int64), (''month'', Int64), (''day'', Int64),
                       (''someval'', String)])
                [map (\<lambda>row. row ! 0) rows, map (\<lambda>row. row ! 1) rows,
                 map (\<lambda>row. row ! 2) rows, map (\<lambda>row. row ! 3) rows])))]),
         (''requestType'', PStr ''READ_RECORDS'')])"
    using assms(2,6)
    by (simp add: read_records_response_def faux_schema_def Let_def bind_err_def dict_item_def)
  show ?thesis
    unfolding dispatch
    using assms(3,4) cols resp
    by (simp add: read_records_def read_records_vfs_path_eq Let_def read_records_query_def
        bind_err_def)
qed

theorem read_records_rows_witness:
  "map_of example_read_event ''@type'' = Some (PStr ''ReadRecordsRequest'')
   \<and> map_of example_read_event ''catalogName'' = Some (PStr ''sqlite'')
   \<and> connect example_world ''file:/sqlite/sample_data.sqlite?bucket=databases'' 65 ''s3vfs''
       = Inr (\<lambda>sql. Inr example_rows)
   \<and> list_all (\<lambda>row. 4 \<le> length row) example_rows
   \<and> lambda_handler example_env example_world example_read_event () =
     (Some (Inr (PDict
        [(''@type'', PStr ''ReadRecordsResponse''),
         (''catalogName'', PStr ''sqlite''),
         (''records'', PDict
            [(''aId'', PStr ''4d1e8a8e-0000-4000-8000-000000000000''),
             (''schema'', PStr ''SCHEMA''),
             (''records'', PStr ''BATCH'')]),
         (''requestType'', PStr ''READ_RECORDS'')])),
      [DbConnect ''file:/sqlite/sample_data.sqlite?bucket=databases'' 65 ''s3vfs'',
       DbExecute ''SELECT * FROM records''])"
  using read_records_rows [where E = example_env and W = example_world
      and event = example_read_event and ctx = "()" and catalogName = "PStr ''sqlite''"
      and s3db = "\<lambda>sql. Inr example_rows" and rows = example_rows]
  by (simp add: example_read_event_def example_env_fields example_world_fields S3_PREFIX_example
      flags_value example_rows_def)

text \<open>
  The claim as it was stated, a response for every ReadRecordsRequest event, fails on an
  event without \<^verbatim>\<open>catalogName\<close>: the query runs and KeyError is raised when the
  response is built.
\<close>

theorem read_records_key_error_counterexample:
  "lambda_handler example_env example_world [(''@type'', PStr ''ReadRecordsRequest'')] ()
     = (Some (Inl KeyError),
        [DbConnect ''file:/sqlite/sample_data.sqlite?bucket=databases'' 65 ''s3vfs'',
         DbExecute ''SELECT * FROM records''])"
  by (simp add: lambda_handler_def dict_item_def read_records_def read_records_vfs_path_eq
      S3_PREFIX_example example_env_fields example_world_fields flags_value Let_def
      read_records_query_def example_rows_def append_row_def row_item_def bind_err_def
      read_records_response_def)

subsection \<open>Listing the schemas\<close>

lemma page_names_basename:
  "map (\<lambda>data. sqlite_basename E (Key data)) (response_contents page) = page_names E page"
  by (simp add: page_names_def sqlite_basename_def)

lemma list_loop_pages:
  assumes "\<forall>page \<in> set pages. NextContinuationToken page \<noteq> None"
    and "NextContinuationToken final = None"
  shows "list_loop E params (map Inr (pages @ [final]) @ rest) acc
           = (Some (Inr (acc @ concat (map (page_names E) (pages @ [final])))),
              map S3ListObjectsV2 (page_requests params pages))"
  using assms
proof (induction pages arbitrary: params acc)
  case Nil
  then show ?case by (simp add: page_names_basename page_requests_def)
next
  case (Cons page pages)
  then obtain token where tok: "NextContinuationToken page = Some token" by auto
  have "list_loop E (params\<lparr>ContinuationToken := Some token\<rparr>)
           (map Inr (pages @ [final]) @ rest) (acc @ page_names E page)
        = (Some (Inr ((acc @ page_names E page) @ concat (map (page_names E) (pages @ [final])))),
           map S3ListObjectsV2 (page_requests (params\<lparr>ContinuationToken := Some token\<rparr>) pages))"
    using Cons.prems by (intro Cons.IH) auto
  with tok show ?case by (simp add: Let_def page_names_basename page_requests_def)
qed

lemma page_requests_fields:
  assumes "p \<in> set (page_requests params pages)"
  shows "Bucket p = Bucket params \<and> Prefix p = Prefix params \<and> Delimiter p = Delimiter params"
  using assms by (auto simp: page_requests_def)

lemma py_replace_examples:
  "py_replace ''.sqlite'' [] (py_replace ''sqlite/'' [] ''sqlite/'') = []"
  "py_replace ''.sqlite'' [] (py_replace ''sqlite/'' [] ''sqlite/sales.sqlite'') = ''sales''"
  "py_replace ''.sqlite'' [] (py_replace ''sqlite/'' [] ''sqlite/a.sql.sqliteite'') = ''a.sqlite''"
  by simp_all

text \<open>
  What the two replacements do to a key of the expected form: a name without slash and
  dot, under the prefix and with the suffix, is stripped to the name.
\<close>

lemma py_replace_at_match:
  assumes "old \<noteq> []"
  shows "py_replace old new (old @ s) = new @ py_replace old new s"
proof -
  from assms obtain c cs where old: "old = c # cs" by (cases old) auto
  have "py_replace old new (c # (cs @ s)) = new @ py_replace old new s"
    using old by (subst py_replace.simps) simp
  with old show ?thesis by simp
qed

lemma py_replace_absent:
  assumes "c \<in> set old" and "c \<notin> set s"
  shows "py_replace old new s = s"
  using assms(2)
proof (induction s)
  case Nil
  with assms(1) show ?case by auto
next
  case (Cons x xs)
  have "take (length old) (x # xs) \<noteq> old"
  proof
    assume "take (length old) (x # xs) = old"
    then have "set old \<subseteq> set (x # xs)" by (metis set_take_subset)
    with assms(1) Cons.prems show False by auto
  qed
  moreover from assms(1) have "old \<noteq> []" by auto
  ultimately show ?case using Cons by simp
qed

lemma py_replace_skip:
  assumes "old = c # cs" and "c \<notin> set a"
  shows "py_replace old new (a @ s) = a @ py_replace old new s"
  using assms(2)
proof (induction a)
  case Nil
  show ?case by simp
next
  case (Cons x xs)
  then have "x \<noteq> c" by auto
  then have "take (length old) (x # xs @ s) \<noteq> old" using assms(1) by auto
  moreover have "old \<noteq> []" using assms(1) by simp
  moreover have "py_replace old new (xs @ s) = xs @ py_replace old new s"
    using Cons by simp
  ultimately show ?case by (simp del: take_Cons')
qed

lemma sqlite_basename_plain:
  assumes "CHR ''/'' \<notin> set name" and "CHR ''.'' \<notin> set name"
  shows "sqlite_basename E (S3_PREFIX E @ ''/'' @ name @ ''.sqlite'') = name"
proof -
  let ?p = "S3_PREFIX E @ ''/''"
  have "py_replace ?p [] (?p @ name @ ''.sqlite'') = py_replace ?p [] (name @ ''.sqlite'')"
    using py_replace_at_match [of ?p "[]" "name @ ''.sqlite''"] by simp
  also have "\<dots> = name @ ''.sqlite''"
    using assms(1) by (intro py_replace_absent [of "CHR ''/''"]) auto
  finally have first: "py_replace ?p [] (?p @ name @ ''.sqlite'') = name @ ''.sqlite''" .
  have "py_replace ''.sqlite'' [] (name @ ''.sqlite'') = name @ py_replace ''.sqlite'' [] ''.sqlite''"
    using assms(2) by (intro py_replace_skip) auto
  also have "py_replace ''.sqlite'' [] ''.sqlite'' = []" by simp
  finally have second: "py_replace ''.sqlite'' [] (name @ ''.sqlite'') = name" by simp
  have "sqlite_basename E (?p @ name @ ''.sqlite'') = name"
    unfolding sqlite_basename_def first second ..
  then show ?thesis by simp
qed

text \<open>
  Claim C8. When the event has a \<^verbatim>\<open>catalogName\<close> and S3 answers the successive calls
  with the pages of a listing (every page but the last carries a
  \<^verbatim>\<open>NextContinuationToken\<close>), \<^verbatim>\<open>ListSchemasRequest.execute\<close> returns a
  ListSchemasResponse with that \<^verbatim>\<open>catalogName\<close> whose schemas are, for every object of
  every page in listing order, the key after \<^verbatim>\<open>.replace(prefix + '/', '')\<close> and
  \<^verbatim>\<open>.replace('.sqlite', '')\<close>. It issues one request per page, each with the bucket,
  the prefix followed by a slash and the delimiter \<^verbatim>\<open>/\<close>, the first without a
  continuation token and every later one with the token of the page before.
\<close>

theorem list_schemas_pages:
  assumes "map_of event ''catalogName'' = Some catalogName"
    and "s3_replies W = map Inr (pages @ [final]) @ rest"
    and "\<forall>page \<in> set pages. NextContinuationToken page \<noteq> None"
    and "NextContinuationToken final = None"
  shows "ListSchemasRequest_execute E W event =
     (Some (Inr (PDict
        [(''@type'', PStr ''ListSchemasResponse''),
         (''catalogName'', catalogName),
         (''schemas'', PList (map PStr (concat (map (page_names E) (pages @ [final]))))),
         (''requestType'', PStr ''LIST_SCHEMAS'')])),
      map S3ListObjectsV2
        (page_requests
           \<lparr>Bucket = S3_BUCKET E, Prefix = S3_PREFIX E @ ''/'', Delimiter = ''/'',
            ContinuationToken = None\<rparr> pages))
    \<and> (\<forall>p \<in> set (page_requests
           \<lparr>Bucket = S3_BUCKET E, Prefix = S3_PREFIX E @ ''/'', Delimiter = ''/'',
            ContinuationToken = None\<rparr> pages).
          Bucket p = S3_BUCKET E \<and> Prefix p = S3_PREFIX E @ ''/'' \<and> Delimiter p = ''/'')"
proof
  have "list_sqlite_objects E W =
      (Some (Inr (concat (map (page_names E) (pages @ [final])))),
       map S3ListObjectsV2
        (page_requests
           \<lparr>Bucket = S3_BUCKET E, Prefix = S3_PREFIX E @ ''/'', Delimiter = ''/'',
            ContinuationToken = None\<rparr> pages))"
    unfolding list_sqlite_objects_def assms(2)
    using list_loop_pages [OF assms(3,4), of E _ rest "[]"] by simp
  with assms(1) show "ListSchemasRequest_execute E W event =
     (Some (Inr (PDict
        [(''@type'', PStr ''ListSchemasResponse''),
         (''catalogName'', catalogName),
         (''schemas'', PList (map PStr (concat (map (page_names E) (pages @ [final]))))),
         (''requestType'', PStr ''LIST_SCHEMAS'')])),
      map S3ListObjectsV2
        (page_requests
           \<lparr>Bucket = S3_BUCKET E, Prefix = S3_PREFIX E @ ''/'', Delimiter = ''/'',
            ContinuationToken = None\<rparr> pages))"
    by (simp add: ListSchemasRequest_execute_def dict_item_def)
next
  show "\<forall>p \<in> set (page_requests
           \<lparr>Bucket = S3_BUCKET E, Prefix = S3_PREFIX E @ ''/'', Delimiter = ''/'',
            ContinuationToken = None\<rparr> pages).
          Bucket p = S3_BUCKET E \<and> Prefix p = S3_PREFIX E @ ''/'' \<and> Delimiter p = ''/''"
    using page_requests_fields by fastforce
qed

theorem list_schemas_pages_witness:
  "map_of example_list_event ''catalogName'' = Some (PStr ''sqlite'')
   \<and> s3_replies example_world =
       map Inr ([\<lparr>Contents = Some [\<lparr>Key = ''sqlite/''\<rparr>, \<lparr>Key = ''sqlite/sales.sqlite''\<rparr>],
                  NextContinuationToken = Some ''t1''\<rparr>]
               @ [\<lparr>Contents = Some [\<lparr>Key = ''sqlite/a.sql.sqliteite''\<rparr>],
                   NextContinuationToken = None\<rparr>]) @ []
   \<and> lambda_handler example_env example_world example_list_event () =
     (Some (Inr (PDict
        [(''@type'', PStr ''ListSchemasResponse''),
         (''catalogName'', PStr ''sqlite''),
         (''schemas'', PList [PStr [], PStr ''sales'', PStr ''a.sqlite'']),
         (''requestType'', PStr ''LIST_SCHEMAS'')])),
      [S3ListObjectsV2 \<lparr>Bucket = ''databases'', Prefix = ''sqlite/'', Delimiter = ''/'',
                        ContinuationToken = None\<rparr>,
       S3ListObjectsV2 \<lparr>Bucket = ''databases'', Prefix = ''sqlite/'', Delimiter = ''/'',
                        ContinuationToken = Some ''t1''\<rparr>])"
  using list_schemas_pages [where E = example_env and W = example_world
      and event = example_list_event and catalogName = "PStr ''sqlite''"
      and pages = "[\<lparr>Contents = Some [\<lparr>Key = ''sqlite/''\<rparr>, \<lparr>Key = ''sqlite/sales.sqlite''\<rparr>],
                  NextContinuationToken = Some ''t1''\<rparr>]"
      and final = "\<lparr>Contents = Some [\<lparr>Key = ''sqlite/a.sql.sqliteite''\<rparr>],
                   NextContinuationToken = None\<rparr>"
      and rest = "[]"]
  by (simp add: example_list_event_def example_world_def lambda_handler_def dict_item_def
      page_names_def page_requests_def response_contents_def S3_PREFIX_example
      example_env_fields py_replace_examples)

section \<open>Properties of the storage core\<close>

subsection \<open>The Range Fetcher\<close>

lemma attempt_cases:
  "attempt N answer =
     (if faults N \<noteq> [] \<and> hd (faults N) then Inl Transient else answer,
      N\<lparr>faults := tl (faults N), attempts := attempts N + 1\<rparr>)"
  by (cases "faults N") (simp_all add: attempt_def)

lemma with_retry_Suc:
  "with_retry (Suc n) N answer =
     (if fst (attempt N answer) = Inl Transient then with_retry n (snd (attempt N answer)) answer
      else attempt N answer)"
  by (auto split: prod.splits sum.splits vfs_error.splits)

lemma with_retry_result:
  "fst (with_retry n N answer) = answer \<or> fst (with_retry n N answer) = Inl Transient"
proof (induction n arbitrary: N)
  case 0
  show ?case by simp
next
  case (Suc n)
  show ?case
    using Suc.IH [of "snd (attempt N answer)"]
    by (auto simp: with_retry_Suc attempt_cases simp del: with_retry.simps)
qed











lemma example_store_ref: "example_store example_ref = Some example_bytes"
  by (simp add: example_store_def)


subsection \<open>Blocks and slices\<close>



subsection \<open>The Page Cache\<close>




lemma evict_to_resident: "resident (evict_to room c) \<le> room"
proof (induction c arbitrary: room)
  case Nil
  show ?case by (simp add: resident_def)
next
  case (Cons e es)
  show ?case
  proof (cases "length (snd e) \<le> room")
    case True
    with Cons.IH [of "room - length (snd e)"] show ?thesis by (simp add: resident_def)
  next
    case False
    then show ?thesis by (simp add: resident_def)
  qed
qed



lemma insert_block_resident:
  assumes "resident c \<le> capacity cfg"
  shows "resident (insert_block cfg c k blk) \<le> capacity cfg"
proof (cases "length blk \<le> capacity cfg")
  case True
  have "resident (evict_to (capacity cfg - length blk) c) \<le> capacity cfg - length blk"
    by (rule evict_to_resident)
  with True show ?thesis by (simp add: insert_block_def resident_def)
next
  case False
  with assms show ?thesis by (simp add: insert_block_def)
qed









subsection \<open>The Virtual File Handle\<close>


lemma vfs_open_handle:
  assumes "vfs_open cfg S uri st = (Inr h, st')"
  shows "\<exists>bytes. S (h_ref h) = Some bytes \<and> h_size h = length bytes"
proof -
  from assms obtain ref where ref: "parse_uri cfg uri = Some ref"
    by (auto simp: vfs_open_def split: option.splits)
  let ?answer = "case S ref of None \<Rightarrow> Inl NotFound | Some bytes \<Rightarrow> Inr (length bytes)"
  obtain pr N' where p: "probe_size cfg S (net_of st) ref = (pr, N')"
    by (cases "probe_size cfg S (net_of st) ref")
  with assms ref have h: "pr = Inr (h_size h)" "h_ref h = ref"
    by (auto simp: vfs_open_def split: sum.splits)
  from with_retry_result [of "Suc (max_attempts cfg)" "net_of st" ?answer] p
  have "pr = ?answer \<or> pr = Inl Transient" by (simp add: probe_size_def)
  with h have "?answer = Inr (h_size h)" by auto
  with h show ?thesis by (auto split: option.splits)
qed


lemma example_open:
  "vfs_open example_config example_store ''file:/sqlite/sample_data.sqlite?bucket=databases''
     \<lparr>cache_of = [], net_of = \<lparr>faults = [], attempts = 0\<rparr>\<rparr>
   = (Inr example_handle, \<lparr>cache_of = [], net_of = \<lparr>faults = [], attempts = 1\<rparr>\<rparr>)"
  by (simp add: vfs_open_def example_config_def probe_size_def numeral_3_eq_3 attempt_def
      example_store_ref example_bytes_def example_handle_def)



text \<open>
  Claim C6. The size of a handle that open returned is the byte length of its object. A
  \<^verbatim>\<open>read_at\<close> of \<open>k > 0\<close> bytes at the Object Size, and any \<^verbatim>\<open>read_at\<close> that extends
  beyond the Object Size, fails with ShortRead and leaves the cache and the network
  untouched; no bytes are made up. Asked for a range at the Object Size, the store
  answers RangeUnsatisfiable.
\<close>

theorem size_and_short_read:
  "(vfs_open cfg S uri st0 = (Inr h, st1) \<longrightarrow>
      (\<exists>bytes. S (h_ref h) = Some bytes \<and> vfs_size h = length bytes))
   \<and> (0 < k \<longrightarrow> read_at cfg S h (vfs_size h) k st = (Inl ShortRead, st))
   \<and> (vfs_size h < offset + len \<longrightarrow> read_at cfg S h offset len st = (Inl ShortRead, st))
   \<and> (S ref = Some bytes \<longrightarrow> range_get S ref (length bytes) k = Inl RangeUnsatisfiable)"
  using vfs_open_handle [of cfg S uri st0 h st1]
  by (auto simp: vfs_size_def read_at_def range_get_def)

theorem size_and_short_read_witness:
  "vfs_open example_config example_store ''file:/sqlite/sample_data.sqlite?bucket=databases''
     \<lparr>cache_of = [], net_of = \<lparr>faults = [], attempts = 0\<rparr>\<rparr>
   = (Inr example_handle, \<lparr>cache_of = [], net_of = \<lparr>faults = [], attempts = 1\<rparr>\<rparr>)
   \<and> vfs_size example_handle = length example_bytes
   \<and> read_at example_config example_store example_handle 10 1 example_state
       = (Inl ShortRead, example_state)
   \<and> read_at example_config example_store example_handle 8 4 example_state
       = (Inl ShortRead, example_state)
   \<and> range_get example_store example_ref 10 1 = Inl RangeUnsatisfiable"
proof -
  have opened: "vfs_open example_config example_store
      ''file:/sqlite/sample_data.sqlite?bucket=databases''
      \<lparr>cache_of = [], net_of = \<lparr>faults = [], attempts = 0\<rparr>\<rparr>
    = (Inr example_handle, \<lparr>cache_of = [], net_of = \<lparr>faults = [], attempts = 1\<rparr>\<rparr>)"
    by (rule example_open)
  have size: "vfs_size example_handle = 10" "length example_bytes = 10"
    by (simp_all add: vfs_size_def example_handle_def example_bytes_def)
  note claim = size_and_short_read [where cfg = example_config and S = example_store
      and uri = "''file:/sqlite/sample_data.sqlite?bucket=databases''"
      and ?st0.0 = "\<lparr>cache_of = [], net_of = \<lparr>faults = [], attempts = 0\<rparr>\<rparr>"
      and ?st1.0 = "\<lparr>cache_of = [], net_of = \<lparr>faults = [], attempts = 1\<rparr>\<rparr>"
      and h = example_handle and k = 1 and st = example_state and offset = 8 and len = 4
      and ref = example_ref and bytes = example_bytes]
  from claim opened have "\<exists>bytes. example_store (h_ref example_handle) = Some bytes
      \<and> vfs_size example_handle = length bytes" by simp
  from claim have "read_at example_config example_store example_handle
      (vfs_size example_handle) 1 example_state = (Inl ShortRead, example_state)" by simp
  moreover from claim size have "read_at example_config example_store example_handle 8 4
      example_state = (Inl ShortRead, example_state)" by simp
  moreover from claim have "range_get example_store example_ref (length example_bytes) 1
      = Inl RangeUnsatisfiable" by (simp add: example_store_ref)
  ultimately show ?thesis using opened size by simp
qed

text \<open>
  Claim C2. Whatever the arguments, \<^verbatim>\<open>write_at\<close>, \<^verbatim>\<open>truncate\<close> and \<^verbatim>\<open>delete\<close> fail
  with Unsupported and leave the handle and the shared state as they were; the store is
  not even an argument of theirs.
\<close>

theorem writes_unsupported:
  "write_at h offset bytes st = (Inl Unsupported, h, st)
   \<and> truncate h new_size st = (Inl Unsupported, h, st)
   \<and> vfs_delete uri st = (Inl Unsupported, st)"
  by (simp add: write_at_def truncate_def vfs_delete_def)

end
